theory Spec2Isabelle
  imports Complex_Main "HOL-Library.AList"
begin

section \<open>The colour library\<close>

text \<open>
  The application draws all colour arithmetic from the chroma-js package, which is a
  dependency and not part of the repository. Colours are held here as their CIE LAB
  coordinates over the real numbers (JavaScript doubles are idealised as reals).
\<close>

datatype lab = Lab real real real

text \<open>Modelled from the spec: the constant WHITE, which the source writes as the colour
  string \<^verbatim>\<open>"#fff"\<close> for chroma-js to parse; here its LAB coordinates.\<close>

definition WHITE :: lab where
  "WHITE = Lab 100 0 0"

text \<open>Modelled from the spec: the constant BLACK, which the source writes as the colour
  string \<^verbatim>\<open>"#000"\<close> for chroma-js to parse; here its LAB coordinates.\<close>

definition BLACK :: lab where
  "BLACK = Lab 0 0 0"

text \<open>Modelled from the spec: \<^verbatim>\<open>mix(a, b, ratio, space=LAB)\<close> of chroma-js, which is
  missing from the sources: the linear interpolation of the two colours' LAB coordinates;
  ratio 0 yields \<open>a\<close>, ratio 1 yields \<open>b\<close>.\<close>

fun mix :: "lab \<Rightarrow> lab \<Rightarrow> real \<Rightarrow> lab" where
  "mix (Lab l1 a1 b1) (Lab l2 a2 b2) f =
     Lab (l1 + f * (l2 - l1)) (a1 + f * (a2 - a1)) (b1 + f * (b2 - b1))"

text \<open>Modelled from the spec: \<^verbatim>\<open>scalePoint(stops, t)\<close>, the two-stop LAB gradient
  \<^verbatim>\<open>chroma.scale([a, b]).mode("lab")\<close> evaluated at \<open>t\<close>, missing from the
  sources: equivalent to \<open>mix\<close> with ratio \<open>t\<close>, for \<open>t\<close> in \<open>[0, 1]\<close>. Every
  parameter \<open>getShades\<close> passes lies in that interval.\<close>

definition scalePoint :: "lab \<Rightarrow> lab \<Rightarrow> real \<Rightarrow> lab" where
  "scalePoint a b t = mix a b t"

section \<open>The easing table\<close>

text \<open>The keys of \<^verbatim>\<open>SHADING\<close>; \<^verbatim>\<open>linear\<close> carries a prime to keep clear of the
  library's predicate of the same name.\<close>

datatype ShadingFunction = linear' | easeIn | easeOut | easeInOut

fun SHADING :: "ShadingFunction \<Rightarrow> real \<Rightarrow> real" where
  "SHADING linear' x = x"
| "SHADING easeIn x = 1 - cos ((x * pi) / 2)"
| "SHADING easeOut x = sin ((x * pi) / 2)"
| "SHADING easeInOut x = (1 - cos (x * pi)) / 2"

section \<open>Seed colours\<close>

record Color =
  name :: string
  hex :: string
  targetIndex :: int
  shadingFunction :: ShadingFunction
  whiteMixRatio :: real
  blackMixRatio :: real

text \<open>
  What a call can raise: chroma-js rejects a colour string it cannot parse, and
  \<^verbatim>\<open>Array(n)\<close> raises a RangeError on a negative length. \<open>IndexOutOfRange\<close> is the
  kind the specification names for palette updates.
\<close>

datatype error = InvalidColorFormat | IndexOutOfRange | RangeError

text \<open>\<^verbatim>\<open>[...Array(n).keys()]\<close>: the indices \<open>0 .. n-1\<close>, for \<open>n \<ge> 0\<close>.\<close>

definition keys :: "int \<Rightarrow> int list" where
  "keys n = map int [0..<nat n]"

text \<open>The indices of the tail: \<^verbatim>\<open>[...Array(extensionLength).keys()].map((i) => i + 1)\<close>.\<close>

definition extendedIndices :: "int \<Rightarrow> int list" where
  "extendedIndices extensionLength = map (\<lambda>i. i + 1) (keys extensionLength)"

section \<open>The shade generator\<close>

text \<open>
  \<^verbatim>\<open>getShades\<close>. The parser \<open>chroma\<close> of colour strings belongs to the library and is
  a parameter; \<open>None\<close> is a string it rejects.
\<close>

definition getShades :: "(string \<Rightarrow> lab option) \<Rightarrow> Color \<Rightarrow> error + lab list" where
  "getShades chroma color =
     (case chroma (hex color) of
        None \<Rightarrow> Inl InvalidColorFormat
      | Some c \<Rightarrow>
          (let lightestShade = mix c WHITE (whiteMixRatio color);
               scale = scalePoint lightestShade c;
               length' = targetIndex color + 1
           in if length' < 0 then Inl RangeError
              else
                (let indices = keys length';
                     colors = map (\<lambda>i. scale (SHADING (shadingFunction color)
                                  (real_of_int i / real_of_int length'))) indices;
                     darkestShade = mix c BLACK (blackMixRatio color);
                     extendedScale = scalePoint c darkestShade;
                     extensionLength = 10 - length'
                 in if extensionLength < 0 then Inl RangeError
                    else
                      (let extendedColors = map (\<lambda>i. extendedScale (SHADING linear'
                                  (real_of_int i / real_of_int extensionLength)))
                                  (extendedIndices extensionLength)
                       in Inr (colors @ extendedColors)))))"

text \<open>
  An instance of the parser for evaluating examples, defined on three greys, with the
  LAB coordinates of \<^verbatim>\<open>#777777\<close> taken to the nearest unit.
\<close>

definition sample_chroma :: "string \<Rightarrow> lab option" where
  "sample_chroma s =
     (if s = ''#ffffff'' then Some WHITE
      else if s = ''#777777'' then Some (Lab 50 0 0)
      else if s = ''#000000'' then Some BLACK
      else None)"

section \<open>The CSS export\<close>







section \<open>The palette and its updates\<close>

text \<open>
  JavaScript numbers as a form field can deliver them, and the values a palette entry
  holds. \<open>Null\<close> is what JSON makes of a number that is not finite.
\<close>

datatype jsnum = NaN | PosInf | NegInf | Finite real

datatype jsval = Null | Str string | Num jsnum

text \<open>
  An object is the list of its properties, each name once, in insertion order (the order
  JavaScript keeps for names that are not array indices, as the six names of a palette
  entry). An array slot holds an object, or nothing (\<open>None\<close>: a hole,
  \<^verbatim>\<open>undefined\<close> or \<^verbatim>\<open>null\<close>).
\<close>

type_synonym obj = "(string \<times> jsval) list"

type_synonym jsarray = "obj option list"

text \<open>
  Arrays are shared by reference: the heap holds every array allocated so far, an
  address is a position in it, and \<open>palette\<close> is the array the component state
  refers to.
\<close>

record app =
  heap :: "jsarray list"
  palette :: nat

text \<open>The entry of the typed palette as the object it is at run time.\<close>

fun key :: "ShadingFunction \<Rightarrow> string" where
  "key linear' = ''linear''"
| "key easeIn = ''easeIn''"
| "key easeOut = ''easeOut''"
| "key easeInOut = ''easeInOut''"

definition obj_of :: "Color \<Rightarrow> obj" where
  "obj_of color =
     [(''name'', Str (name color)),
      (''hex'', Str (hex color)),
      (''targetIndex'', Num (Finite (real_of_int (targetIndex color)))),
      (''shadingFunction'', Str (key (shadingFunction color))),
      (''whiteMixRatio'', Num (Finite (whiteMixRatio color))),
      (''blackMixRatio'', Num (Finite (blackMixRatio color)))]"

definition DEFAULT_COLORS :: "Color list" where
  "DEFAULT_COLORS =
     \<lparr>name = ''gray'', hex = ''#302c2c'', targetIndex = 7, shadingFunction = easeOut,
      whiteMixRatio = 9 / 10, blackMixRatio = 85 / 100\<rparr>
     # map (\<lambda>(name, hex).
         \<lparr>name = name, hex = hex, targetIndex = 5, shadingFunction = easeInOut,
          whiteMixRatio = 9 / 10, blackMixRatio = 85 / 100\<rparr>)
       [(''yellow'', ''#ffdc40''), (''red'', ''#e4593e''), (''teal'', ''#18aa96''),
        (''blue'', ''#45a4f9''), (''green'', ''#79cb3a'')]"

text \<open>The state of \<^verbatim>\<open>App\<close> at start: a fresh array holding the default palette.\<close>

definition App :: app where
  "App = \<lparr>heap = [map (\<lambda>color. Some (obj_of color)) DEFAULT_COLORS], palette = 0\<rparr>"

text \<open>
  \<^verbatim>\<open>JSON.parse(JSON.stringify(x))\<close>: strings and finite numbers come back as they
  were, a number that is not finite comes back as \<^verbatim>\<open>null\<close>.
\<close>

fun JSON_value :: "jsval \<Rightarrow> jsval" where
  "JSON_value (Num (Finite r)) = Num (Finite r)"
| "JSON_value (Num x) = Null"
| "JSON_value v = v"

definition JSON_roundtrip :: "jsarray \<Rightarrow> jsarray" where
  "JSON_roundtrip xs = map (map_option (map (\<lambda>(k, v). (k, JSON_value v)))) xs"

text \<open>Reading \<^verbatim>\<open>xs[i]\<close>: outside the array the result is \<^verbatim>\<open>undefined\<close>.\<close>

definition array_get :: "jsarray \<Rightarrow> int \<Rightarrow> obj option" where
  "array_get xs i = (if 0 \<le> i \<and> i < int (length xs) then xs ! nat i else None)"

text \<open>
  Writing \<^verbatim>\<open>xs[i] = v\<close>: at or beyond the length the array grows, with holes up to
  \<open>i\<close>; a number that is no array index (negative, or from \<open>2^32 - 1\<close> on) names an
  ordinary property and leaves the elements as they are.
\<close>

definition array_set :: "jsarray \<Rightarrow> int \<Rightarrow> obj \<Rightarrow> jsarray" where
  "array_set xs i v =
     (if 0 \<le> i \<and> i < int (length xs) then xs[nat i := Some v]
      else if int (length xs) \<le> i \<and> i < 2 ^ 32 - 1
        then xs @ replicate (nat i - length xs) None @ [Some v]
      else xs)"

text \<open>The spread \<^verbatim>\<open>{...x}\<close>: of \<^verbatim>\<open>undefined\<close> or \<^verbatim>\<open>null\<close> it is the empty object.\<close>

definition spread :: "obj option \<Rightarrow> obj" where
  "spread x = (case x of None \<Rightarrow> [] | Some ob \<Rightarrow> ob)"

text \<open>
  \<^verbatim>\<open>updateAttrForIndex\<close>: the copy is a new array, the write goes to the copy, and
  \<^verbatim>\<open>setPalette\<close> makes the state refer to it. The object literal
  \<^verbatim>\<open>{...x, [attr]: value}\<close> replaces the property where \<open>x\<close> has it and adds it
  at the end otherwise. No statement of the function raises.
\<close>

definition updateAttrForIndex :: "app \<Rightarrow> int \<Rightarrow> string \<Rightarrow> jsval \<Rightarrow> error + app" where
  "updateAttrForIndex st index attr val =
     (let newPalette = length (heap st);
          h = heap st @ [JSON_roundtrip (heap st ! palette st)];
          entry = AList.update attr val (spread (array_get (h ! newPalette) index));
          h' = h[newPalette := array_set (h ! newPalette) index entry]
      in Inr (st\<lparr>heap := h', palette := newPalette\<rparr>))"

text \<open>The operator \<^verbatim>\<open>||\<close> on numbers: \<^verbatim>\<open>NaN\<close> and zero are falsy.\<close>

definition js_or :: "jsnum \<Rightarrow> jsnum \<Rightarrow> jsnum" where
  "js_or x d = (if x = NaN \<or> x = Finite 0 then d else x)"

text \<open>
  The change handlers of the two ratio fields of \<^verbatim>\<open>ColorPicker\<close>, with the setters
  \<^verbatim>\<open>ColorPickers\<close> passes for entry \<open>i\<close>. \<^verbatim>\<open>Number\<close>, the conversion of the
  field's text, is a parameter.
\<close>

definition setWhiteMixRatio :: "app \<Rightarrow> int \<Rightarrow> jsnum \<Rightarrow> error + app" where
  "setWhiteMixRatio st i r = updateAttrForIndex st i ''whiteMixRatio'' (Num r)"

definition setBlackMixRatio :: "app \<Rightarrow> int \<Rightarrow> jsnum \<Rightarrow> error + app" where
  "setBlackMixRatio st i r = updateAttrForIndex st i ''blackMixRatio'' (Num r)"

definition onChange_whiteMixRatio :: "(string \<Rightarrow> jsnum) \<Rightarrow> app \<Rightarrow> int \<Rightarrow> string \<Rightarrow> error + app" where
  "onChange_whiteMixRatio Number st i text =
     setWhiteMixRatio st i (js_or (Number text) (Finite (9 / 10)))"

definition onChange_blackMixRatio :: "(string \<Rightarrow> jsnum) \<Rightarrow> app \<Rightarrow> int \<Rightarrow> string \<Rightarrow> error + app" where
  "onChange_blackMixRatio Number st i text =
     setBlackMixRatio st i (js_or (Number text) (Finite (9 / 10)))"


section \<open>Auxiliary facts\<close>

subsection \<open>Index lists and the shape of the ramp\<close>

lemma keys_map:
  "0 \<le> n \<Longrightarrow> map (\<lambda>i. g (real_of_int i / real_of_int n)) (keys n)
     = map (\<lambda>i. g (real i / real (nat n))) [0..<nat n]"
  by (simp add: keys_def comp_def)

lemma extendedIndices_map:
  "0 \<le> n \<Longrightarrow> map (\<lambda>i. g (real_of_int i / real_of_int n)) (extendedIndices n)
     = map (\<lambda>j. g (real j / real (nat n))) [1..<Suc (nat n)]"
proof -
  assume n: "0 \<le> n"
  have "[1..<Suc (nat n)] = map Suc [0..<nat n]"
    by (simp add: map_Suc_upt)
  then show ?thesis using n
    by (simp add: extendedIndices_def keys_def comp_def add.commute)
qed

lemma getShades_Inr:
  assumes "0 \<le> targetIndex color" and "targetIndex color \<le> 9"
    and "chroma (hex color) = Some c"
  shows "getShades chroma color =
      Inr (map (\<lambda>i. scalePoint (mix c WHITE (whiteMixRatio color)) c
                 (SHADING (shadingFunction color) (real i / real (nat (targetIndex color + 1)))))
             [0..<nat (targetIndex color + 1)]
         @ map (\<lambda>j. scalePoint c (mix c BLACK (blackMixRatio color))
                 (real j / real (nat (9 - targetIndex color))))
             [1..<Suc (nat (9 - targetIndex color))])"
proof -
  let ?n = "targetIndex color + 1"
  let ?m = "9 - targetIndex color"
  have a: "0 \<le> ?n" and b: "0 \<le> ?m"
    using assms by simp_all
  have na: "(?n < 0) = False" and nb: "(?m < 0) = False"
    using assms by simp_all
  have m: "10 - ?n = ?m" by simp
  note h = keys_map [OF a, of "\<lambda>x. scalePoint (mix c WHITE (whiteMixRatio color)) c
                 (SHADING (shadingFunction color) x)"]
  note t = extendedIndices_map [OF b, of "\<lambda>x. scalePoint c (mix c BLACK (blackMixRatio color)) x"]
  have "getShades chroma color =
      Inr (map (\<lambda>i. scalePoint (mix c WHITE (whiteMixRatio color)) c
                 (SHADING (shadingFunction color) (real_of_int i / real_of_int ?n))) (keys ?n)
         @ map (\<lambda>i. scalePoint c (mix c BLACK (blackMixRatio color))
                 (real_of_int i / real_of_int ?m)) (extendedIndices ?m))"
    unfolding getShades_def Let_def
    by (simp only: assms(3) option.case na nb if_False SHADING.simps(1) m)
  then show ?thesis
    by (simp only: h t)
qed

lemma getShades_nth:
  assumes "0 \<le> targetIndex color" and "targetIndex color \<le> 9"
    and "chroma (hex color) = Some c"
  shows "\<exists>ramp. getShades chroma color = Inr ramp \<and> length ramp = 10
     \<and> (\<forall>i. i \<le> nat (targetIndex color) \<longrightarrow>
          ramp ! i = scalePoint (mix c WHITE (whiteMixRatio color)) c
                 (SHADING (shadingFunction color) (real i / real (nat (targetIndex color) + 1))))
     \<and> (\<forall>i. nat (targetIndex color) < i \<and> i < 10 \<longrightarrow>
          ramp ! i = scalePoint c (mix c BLACK (blackMixRatio color))
                 (real (i - nat (targetIndex color)) / real (9 - nat (targetIndex color))))"
proof -
  let ?t = "nat (targetIndex color)"
  have t9: "?t \<le> 9"
    using assms(1,2) by simp
  have n: "nat (targetIndex color + 1) = Suc ?t" and m: "nat (9 - targetIndex color) = 9 - ?t"
    using assms(1,2) by simp_all
  let ?head = "map (\<lambda>i. scalePoint (mix c WHITE (whiteMixRatio color)) c
                 (SHADING (shadingFunction color) (real i / real (Suc ?t)))) [0..<Suc ?t]"
  let ?tail = "map (\<lambda>j. scalePoint c (mix c BLACK (blackMixRatio color))
                 (real j / real (9 - ?t))) [1..<Suc (9 - ?t)]"
  have eq: "getShades chroma color = Inr (?head @ ?tail)"
    using getShades_Inr [where chroma = chroma and color = color and c = c, OF assms]
    unfolding n m .
  have lh: "length ?head = Suc ?t" and lt: "length ?tail = 9 - ?t"
    by (simp_all del: upt_Suc)
  show ?thesis
  proof (rule exI [where x = "?head @ ?tail"], intro conjI allI impI)
    show "getShades chroma color = Inr (?head @ ?tail)"
      by (rule eq)
    show "length (?head @ ?tail) = 10"
      unfolding length_append lh lt using t9 by simp
  next
    fix i assume i: "i \<le> ?t"
    then have "(?head @ ?tail) ! i = ?head ! i"
      unfolding nth_append lh by simp
    also have "\<dots> = scalePoint (mix c WHITE (whiteMixRatio color)) c
                 (SHADING (shadingFunction color) (real i / real (Suc ?t)))"
      using i by (simp del: upt_Suc)
    finally show "(?head @ ?tail) ! i = scalePoint (mix c WHITE (whiteMixRatio color)) c
                 (SHADING (shadingFunction color) (real i / real (?t + 1)))"
      by simp
  next
    fix i assume i: "?t < i \<and> i < 10"
    then have k: "i - Suc ?t < 9 - ?t" by linarith
    have "(?head @ ?tail) ! i = ?tail ! (i - Suc ?t)"
      unfolding nth_append lh using i by simp
    also have "\<dots> = scalePoint c (mix c BLACK (blackMixRatio color))
                 (real (1 + (i - Suc ?t)) / real (9 - ?t))"
      using k by (simp del: upt_Suc)
    also have "1 + (i - Suc ?t) = i - ?t" using i by linarith
    finally show "(?head @ ?tail) ! i = scalePoint c (mix c BLACK (blackMixRatio color))
                 (real (i - ?t) / real (9 - ?t))" .
  qed
qed

subsection \<open>Interpolation\<close>

lemma mix_0: "mix a b 0 = a"
  by (cases a; cases b) simp

lemma mix_1: "mix a b 1 = b"
  by (cases a; cases b) simp

lemma mix_same: "mix a a t = a"
  by (cases a) simp

lemma affine_eq_right: "(x::real) + t * (y - x) = y \<longleftrightarrow> t = 1 \<or> x = y"
proof -
  have "x + t * (y - x) - y = (1 - t) * (x - y)" by (simp add: algebra_simps)
  then have "x + t * (y - x) = y \<longleftrightarrow> (1 - t) * (x - y) = 0" by (metis eq_iff_diff_eq_0)
  then show ?thesis by auto
qed

lemma affine_eq_left: "(x::real) + t * (y - x) = x \<longleftrightarrow> t = 0 \<or> x = y"
  by auto

lemma mix_eq_right: "mix a b t = b \<longleftrightarrow> t = 1 \<or> a = b"
  by (cases a; cases b) (auto simp: affine_eq_right)


lemma scalePoint_0: "scalePoint a b 0 = a"
  by (simp add: scalePoint_def mix_0)

lemma scalePoint_1: "scalePoint a b 1 = b"
  by (simp add: scalePoint_def mix_1)

lemma scalePoint_eq_right: "scalePoint a b t = b \<longleftrightarrow> t = 1 \<or> a = b"
  by (simp add: scalePoint_def mix_eq_right)


subsection \<open>Easing\<close>

lemma SHADING_0: "SHADING f 0 = 0"
  by (cases f) simp_all

lemma SHADING_unit:
  assumes "0 \<le> x" and "x < 1"
  shows "0 \<le> SHADING f x \<and> SHADING f x < 1"
proof (cases f)
  case linear'
  then show ?thesis using assms by simp
next
  case easeIn
  have "0 \<le> x * pi / 2" and "x * pi / 2 < pi / 2" using assms by simp_all
  moreover have "- (pi / 2) < 0" by simp
  ultimately have "0 < cos (x * pi / 2)"
    by (intro cos_gt_zero_pi) linarith+
  then show ?thesis using easeIn by simp
next
  case easeOut
  have "x * pi / 2 < pi / 2" using assms by simp
  moreover have "0 \<le> x * pi / 2" using assms by simp
  moreover have "- (pi / 2) \<le> 0" by simp
  ultimately have "sin (x * pi / 2) < sin (pi / 2)"
    by (intro sin_monotone_2pi) linarith+
  moreover have "0 \<le> sin (x * pi / 2)"
    using assms by (intro sin_ge_zero) (auto intro: mult_left_le_one_le)
  ultimately show ?thesis using easeOut by simp
next
  case easeInOut
  have "x * pi < pi" using assms by simp
  then have "cos pi < cos (x * pi)"
    using assms by (intro cos_monotone_0_pi) auto
  then show ?thesis using easeInOut by (simp add: field_simps)
qed

subsection \<open>Palette updates\<close>

lemma updateAttrForIndex_Inr:
  "updateAttrForIndex st index attr val =
     Inr \<lparr>heap = heap st @ [array_set (JSON_roundtrip (heap st ! palette st)) index
                (AList.update attr val
                   (spread (array_get (JSON_roundtrip (heap st ! palette st)) index)))],
          palette = length (heap st)\<rparr>"
  by (simp add: updateAttrForIndex_def Let_def)

lemma length_JSON_roundtrip: "length (JSON_roundtrip xs) = length xs"
  by (simp add: JSON_roundtrip_def)

lemma JSON_obj_of: "map (\<lambda>(k, v). (k, JSON_value v)) (obj_of color) = obj_of color"
  by (simp add: obj_of_def)

lemma JSON_roundtrip_typed:
  "JSON_roundtrip (map (\<lambda>color. Some (obj_of color)) colors) = map (\<lambda>color. Some (obj_of color)) colors"
  by (simp add: JSON_roundtrip_def JSON_obj_of)

lemma App_wf: "palette App < length (heap App)"
  by (simp add: App_def)

lemma App_palette: "heap App ! palette App = map (\<lambda>color. Some (obj_of color)) DEFAULT_COLORS"
  by (simp add: App_def)

lemma App_length: "length (heap App ! palette App) = 6"
  by (simp add: App_def DEFAULT_COLORS_def)

lemma App_first:
  "heap App ! palette App ! 0 =
     Some (obj_of \<lparr>name = ''gray'', hex = ''#302c2c'', targetIndex = 7, shadingFunction = easeOut,
       whiteMixRatio = 9 / 10, blackMixRatio = 85 / 100\<rparr>)"
  by (simp add: App_def DEFAULT_COLORS_def)

lemma js_or_falsy: "x = Finite 0 \<or> x = NaN \<Longrightarrow> js_or x d = d"
  by (auto simp: js_or_def)

lemma js_or_nonzero: "d \<noteq> Finite 0 \<Longrightarrow> js_or x d \<noteq> Finite 0"
  by (simp add: js_or_def)

subsection \<open>Export\<close>




section \<open>The ramp is an eased head followed by a linear tail\<close>

text \<open>
  C1: for a seed with \<open>targetIndex\<close> in \<open>[0, 9]\<close>, a colour the library parses and
  mix ratios in \<open>[0, 1]\<close>, \<open>getShades\<close> returns ten colours: a head of
  \<open>n = targetIndex + 1\<close> samples of the gradient from the lightest shade to the seed,
  sample \<open>i\<close> taken at the easing of \<open>i / n\<close>, followed by a tail of
  \<open>m = 9 - targetIndex\<close> samples of the gradient from the seed to the darkest shade,
  sample \<open>j = 1 .. m\<close> taken at \<open>j / m\<close>.
\<close>

theorem getShades_head_tail:
  assumes "0 \<le> targetIndex color" and "targetIndex color \<le> 9"
    and "chroma (hex color) = Some c"
    and "0 \<le> whiteMixRatio color" and "whiteMixRatio color \<le> 1"
    and "0 \<le> blackMixRatio color" and "blackMixRatio color \<le> 1"
  shows "\<exists>head tail.
      getShades chroma color = Inr (head @ tail) \<and> length (head @ tail) = 10 \<and>
      head = map (\<lambda>i. scalePoint (mix c WHITE (whiteMixRatio color)) c
                 (SHADING (shadingFunction color) (real i / real (nat (targetIndex color + 1)))))
               [0..<nat (targetIndex color + 1)] \<and>
      length head = nat (targetIndex color + 1) \<and>
      tail = map (\<lambda>j. scalePoint c (mix c BLACK (blackMixRatio color))
                 (real j / real (nat (9 - targetIndex color))))
               [1..<Suc (nat (9 - targetIndex color))] \<and>
      length tail = nat (9 - targetIndex color)"
proof -
  let ?head = "map (\<lambda>i. scalePoint (mix c WHITE (whiteMixRatio color)) c
                 (SHADING (shadingFunction color) (real i / real (nat (targetIndex color + 1)))))
               [0..<nat (targetIndex color + 1)]"
  let ?tail = "map (\<lambda>j. scalePoint c (mix c BLACK (blackMixRatio color))
                 (real j / real (nat (9 - targetIndex color))))
               [1..<Suc (nat (9 - targetIndex color))]"
  have eq: "getShades chroma color = Inr (?head @ ?tail)"
    by (rule getShades_Inr [where chroma = chroma and color = color and c = c, OF assms(1-3)])
  have lh: "length ?head = nat (targetIndex color + 1)"
    and lt: "length ?tail = nat (9 - targetIndex color)"
    by (simp_all del: upt_Suc)
  have "length (?head @ ?tail) = 10"
    unfolding length_append lh lt using assms(1,2) by simp
  with eq lh lt show ?thesis by blast
qed

text \<open>
  The grey default entry: eight head samples and two tail samples.
\<close>

theorem getShades_head_tail_witness:
  "(0::int) \<le> 7 \<and> (7::int) \<le> 9 \<and> sample_chroma ''#777777'' = Some (Lab 50 0 0) \<and>
   (\<exists>head tail.
      getShades sample_chroma
        \<lparr>name = ''gray'', hex = ''#777777'', targetIndex = 7, shadingFunction = easeOut,
         whiteMixRatio = 9 / 10, blackMixRatio = 85 / 100\<rparr> = Inr (head @ tail) \<and>
      length (head @ tail) = 10 \<and> length head = 8 \<and> length tail = 2)"
proof -
  let ?seed = "\<lparr>name = ''gray'', hex = ''#777777'', targetIndex = 7, shadingFunction = easeOut,
        whiteMixRatio = 9 / 10, blackMixRatio = 85 / 100\<rparr>"
  have p: "sample_chroma (hex ?seed) = Some (Lab 50 0 0)"
    by (simp add: sample_chroma_def)
  from getShades_head_tail [where color = ?seed and chroma = sample_chroma, OF _ _ p]
  obtain head tail where "getShades sample_chroma ?seed = Inr (head @ tail)"
    and "length (head @ tail) = 10"
    and "length head = nat (targetIndex ?seed + 1)"
    and "length tail = nat (9 - targetIndex ?seed)"
    by force
  then have "getShades sample_chroma ?seed = Inr (head @ tail) \<and>
      length (head @ tail) = 10 \<and> length head = 8 \<and> length tail = 2"
    by simp
  then have "\<exists>head tail. getShades sample_chroma ?seed = Inr (head @ tail) \<and>
      length (head @ tail) = 10 \<and> length head = 8 \<and> length tail = 2"
    by blast
  with p show ?thesis by simp
qed

section \<open>The last entry and the entry at the target index\<close>

text \<open>
  C2, as amended: for a seed with \<open>targetIndex \<le> 8\<close>, entry 9 of the ramp is
  exactly the darkest shade \<open>mix c BLACK blackMixRatio\<close>, the last tail parameter being
  \<open>m / m = 1\<close>; the entry at \<open>targetIndex\<close> is the last head sample, taken at a
  parameter in \<open>[0, 1)\<close>, and it differs from the seed colour whenever the lightest
  shade does.
\<close>

theorem getShades_last_and_target:
  assumes "0 \<le> targetIndex color" and "targetIndex color \<le> 8"
    and "chroma (hex color) = Some c"
  shows "\<exists>ramp. getShades chroma color = Inr ramp \<and> length ramp = 10 \<and>
      ramp ! 9 = mix c BLACK (blackMixRatio color) \<and>
      ramp ! nat (targetIndex color) =
        scalePoint (mix c WHITE (whiteMixRatio color)) c
          (SHADING (shadingFunction color)
             (real_of_int (targetIndex color) / real_of_int (targetIndex color + 1))) \<and>
      0 \<le> SHADING (shadingFunction color)
             (real_of_int (targetIndex color) / real_of_int (targetIndex color + 1)) \<and>
      SHADING (shadingFunction color)
             (real_of_int (targetIndex color) / real_of_int (targetIndex color + 1)) < 1 \<and>
      (mix c WHITE (whiteMixRatio color) \<noteq> c \<longrightarrow> ramp ! nat (targetIndex color) \<noteq> c)"
proof -
  let ?t = "nat (targetIndex color)"
  let ?x = "real_of_int (targetIndex color) / real_of_int (targetIndex color + 1)"
  have le9: "targetIndex color \<le> 9" using assms(2) by simp
  from getShades_nth [where chroma = chroma and color = color, OF assms(1) le9 assms(3)]
  obtain ramp where r: "getShades chroma color = Inr ramp" and len: "length ramp = 10"
    and h: "\<And>i. i \<le> ?t \<Longrightarrow>
          ramp ! i = scalePoint (mix c WHITE (whiteMixRatio color)) c
                 (SHADING (shadingFunction color) (real i / real (?t + 1)))"
    and t: "\<And>i. ?t < i \<and> i < 10 \<Longrightarrow>
          ramp ! i = scalePoint c (mix c BLACK (blackMixRatio color))
                 (real (i - ?t) / real (9 - ?t))"
    by blast
  have x: "real ?t / real (?t + 1) = ?x"
    using assms(1) by simp
  have x01: "0 \<le> ?x" "?x < 1"
    using assms(1) by simp_all
  have s01: "0 \<le> SHADING (shadingFunction color) ?x" "SHADING (shadingFunction color) ?x < 1"
    using SHADING_unit [OF x01] by simp_all
  have tgt: "ramp ! ?t = scalePoint (mix c WHITE (whiteMixRatio color)) c
                 (SHADING (shadingFunction color) ?x)"
    using h [of ?t] x by simp
  have "?t < 9 \<and> (9::nat) < 10" using assms(1,2) by simp
  from t [OF this] have "ramp ! 9 = scalePoint c (mix c BLACK (blackMixRatio color))
                 (real (9 - ?t) / real (9 - ?t))" .
  moreover have "real (9 - ?t) / real (9 - ?t) = 1"
    using assms(1,2) by simp
  ultimately have last: "ramp ! 9 = mix c BLACK (blackMixRatio color)"
    by (simp add: scalePoint_1)
  have ne: "ramp ! ?t \<noteq> c" if "mix c WHITE (whiteMixRatio color) \<noteq> c"
    using that s01(2) unfolding tgt scalePoint_eq_right by simp
  from r len last tgt s01 ne show ?thesis by blast
qed

text \<open>
  A grey seed with target index 5: entry 9 is the darkest shade and entry 5 is not the
  seed.
\<close>

theorem getShades_last_and_target_witness:
  "(0::int) \<le> 5 \<and> (5::int) \<le> 8 \<and> sample_chroma ''#777777'' = Some (Lab 50 0 0) \<and>
   mix (Lab 50 0 0) WHITE (9 / 10) \<noteq> Lab 50 0 0 \<and>
   (\<exists>ramp. getShades sample_chroma
        \<lparr>name = ''gray'', hex = ''#777777'', targetIndex = 5, shadingFunction = linear',
         whiteMixRatio = 9 / 10, blackMixRatio = 85 / 100\<rparr> = Inr ramp \<and>
      length ramp = 10 \<and> ramp ! 9 = Lab (15 / 2) 0 0 \<and> ramp ! 5 \<noteq> Lab 50 0 0)"
proof -
  let ?s = "\<lparr>name = ''gray'', hex = ''#777777'', targetIndex = 5, shadingFunction = linear',
         whiteMixRatio = 9 / 10, blackMixRatio = 85 / 100\<rparr>"
  have p: "sample_chroma (hex ?s) = Some (Lab 50 0 0)"
    by (simp add: sample_chroma_def)
  have w: "mix (Lab 50 0 0) WHITE (9 / 10) \<noteq> Lab 50 0 0"
    by (simp add: WHITE_def)
  from getShades_last_and_target [where chroma = sample_chroma and color = ?s, OF _ _ p]
  obtain ramp where "getShades sample_chroma ?s = Inr ramp" and "length ramp = 10"
    and "ramp ! 9 = mix (Lab 50 0 0) BLACK (blackMixRatio ?s)"
    and "mix (Lab 50 0 0) WHITE (whiteMixRatio ?s) \<noteq> Lab 50 0 0 \<longrightarrow>
           ramp ! nat (targetIndex ?s) \<noteq> Lab 50 0 0"
    by force
  then have "getShades sample_chroma ?s = Inr ramp \<and> length ramp = 10 \<and>
      ramp ! 9 = Lab (15 / 2) 0 0 \<and> ramp ! 5 \<noteq> Lab 50 0 0"
    using w by (simp add: BLACK_def)
  then have "\<exists>ramp. getShades sample_chroma ?s = Inr ramp \<and> length ramp = 10 \<and>
      ramp ! 9 = Lab (15 / 2) 0 0 \<and> ramp ! 5 \<noteq> Lab 50 0 0"
    by blast
  with p w show ?thesis by simp
qed

text \<open>
  C2 as stated fails: for a white seed the lightest shade is the seed itself, the head
  gradient is constant, and the entry at the target index equals the seed colour.
\<close>

theorem getShades_target_is_seed_counterexample:
  "sample_chroma ''#ffffff'' = Some WHITE \<and>
   (case getShades sample_chroma
      \<lparr>name = ''white'', hex = ''#ffffff'', targetIndex = 5, shadingFunction = easeInOut,
       whiteMixRatio = 9 / 10, blackMixRatio = 85 / 100\<rparr>
    of Inr ramp \<Rightarrow> ramp ! 5 = WHITE | Inl e \<Rightarrow> False)"
proof -
  let ?s = "\<lparr>name = ''white'', hex = ''#ffffff'', targetIndex = 5, shadingFunction = easeInOut,
       whiteMixRatio = 9 / 10, blackMixRatio = 85 / 100\<rparr>"
  have p: "sample_chroma (hex ?s) = Some WHITE"
    by (simp add: sample_chroma_def)
  from getShades_nth [where chroma = sample_chroma and color = ?s, OF _ _ p]
  obtain ramp where r: "getShades sample_chroma ?s = Inr ramp"
    and h: "\<forall>i. i \<le> nat (targetIndex ?s) \<longrightarrow>
          ramp ! i = scalePoint (mix WHITE WHITE (whiteMixRatio ?s)) WHITE
                 (SHADING (shadingFunction ?s) (real i / real (nat (targetIndex ?s) + 1)))"
    by auto
  have "ramp ! 5 = WHITE"
    using h [rule_format, of 5] by (simp add: mix_same scalePoint_def)
  with r p show ?thesis by simp
qed

section \<open>The two boundary values of the target index\<close>

text \<open>
  C3: with \<open>targetIndex = 9\<close> the list of tail indices is empty, so the quotient
  \<open>j / m\<close> with \<open>m = 0\<close> is formed for no \<open>j\<close>, and the ramp is the ten eased
  head samples; with \<open>targetIndex = 0\<close> the head is the single colour sampled at the
  easing of \<open>0 / 1 = 0\<close>, which is the lightest shade itself, followed by nine tail
  samples.
\<close>

theorem getShades_boundaries:
  assumes "chroma (hex color) = Some c"
  shows "(targetIndex color = 9 \<longrightarrow>
           extendedIndices (10 - (targetIndex color + 1)) = [] \<and>
           getShades chroma color =
             Inr (map (\<lambda>i. scalePoint (mix c WHITE (whiteMixRatio color)) c
                        (SHADING (shadingFunction color) (real i / 10))) [0..<10])) \<and>
         (targetIndex color = 0 \<longrightarrow>
           getShades chroma color =
             Inr (mix c WHITE (whiteMixRatio color)
                  # map (\<lambda>j. scalePoint c (mix c BLACK (blackMixRatio color)) (real j / 9))
                      [1..<10]))"
proof (intro conjI impI)
  assume t: "targetIndex color = 9"
  show "extendedIndices (10 - (targetIndex color + 1)) = []"
    by (simp add: t extendedIndices_def keys_def)
  have "0 \<le> targetIndex color" and "targetIndex color \<le> 9" using t by simp_all
  from getShades_Inr [where chroma = chroma and color = color and c = c, OF this assms]
  show "getShades chroma color =
             Inr (map (\<lambda>i. scalePoint (mix c WHITE (whiteMixRatio color)) c
                        (SHADING (shadingFunction color) (real i / 10))) [0..<10])"
    unfolding t by simp
next
  assume t: "targetIndex color = 0"
  have "0 \<le> targetIndex color" and "targetIndex color \<le> 9" using t by simp_all
  from getShades_Inr [where chroma = chroma and color = color and c = c, OF this assms]
  show "getShades chroma color =
             Inr (mix c WHITE (whiteMixRatio color)
                  # map (\<lambda>j. scalePoint c (mix c BLACK (blackMixRatio color)) (real j / 9))
                      [1..<10])"
    unfolding t by (simp add: SHADING_0 scalePoint_0 upt_rec [of 0 "Suc 0"] del: upt_Suc)
qed

text \<open>
  Both boundary values on a grey seed.
\<close>

theorem getShades_boundaries_witness:
  "sample_chroma ''#777777'' = Some (Lab 50 0 0) \<and>
   getShades sample_chroma
     \<lparr>name = ''gray'', hex = ''#777777'', targetIndex = 9, shadingFunction = linear',
      whiteMixRatio = 9 / 10, blackMixRatio = 85 / 100\<rparr> =
     Inr (map (\<lambda>i. scalePoint (mix (Lab 50 0 0) WHITE (9 / 10)) (Lab 50 0 0) (real i / 10))
            [0..<10]) \<and>
   getShades sample_chroma
     \<lparr>name = ''gray'', hex = ''#777777'', targetIndex = 0, shadingFunction = linear',
      whiteMixRatio = 9 / 10, blackMixRatio = 85 / 100\<rparr> =
     Inr (Lab 95 0 0
          # map (\<lambda>j. scalePoint (Lab 50 0 0) (mix (Lab 50 0 0) BLACK (85 / 100)) (real j / 9))
              [1..<10])"
proof -
  let ?hi = "\<lparr>name = ''gray'', hex = ''#777777'', targetIndex = 9, shadingFunction = linear',
      whiteMixRatio = 9 / 10, blackMixRatio = 85 / 100\<rparr>"
  let ?lo = "\<lparr>name = ''gray'', hex = ''#777777'', targetIndex = 0, shadingFunction = linear',
      whiteMixRatio = 9 / 10, blackMixRatio = 85 / 100\<rparr>"
  have p: "sample_chroma ''#777777'' = Some (Lab 50 0 0)"
    by (simp add: sample_chroma_def)
  have p9: "sample_chroma (hex ?hi) = Some (Lab 50 0 0)"
    and p0: "sample_chroma (hex ?lo) = Some (Lab 50 0 0)"
    using p by simp_all
  have w: "mix (Lab 50 0 0) WHITE (9 / 10) = Lab 95 0 0"
    by (simp add: WHITE_def)
  from getShades_boundaries [where chroma = sample_chroma and color = ?hi, OF p9]
  have a: "getShades sample_chroma ?hi =
     Inr (map (\<lambda>i. scalePoint (mix (Lab 50 0 0) WHITE (9 / 10)) (Lab 50 0 0) (real i / 10))
            [0..<10])"
    by simp
  from getShades_boundaries [where chroma = sample_chroma and color = ?lo, OF p0]
  have b: "getShades sample_chroma ?lo =
     Inr (Lab 95 0 0
          # map (\<lambda>j. scalePoint (Lab 50 0 0) (mix (Lab 50 0 0) BLACK (85 / 100)) (real j / 9))
              [1..<10])"
    by (simp add: w)
  from p a b show ?thesis by (intro conjI)
qed

section \<open>Mix ratios outside the unit interval\<close>

text \<open>
  C4, as amended: a mix ratio outside \<open>[0, 1]\<close> causes no failure and is not
  clamped either. For every real \<open>whiteMixRatio\<close> and \<open>blackMixRatio\<close> the ramp has
  ten entries, entry 0 is \<open>mix c WHITE whiteMixRatio\<close> and, when the tail is not empty,
  entry 9 is \<open>mix c BLACK blackMixRatio\<close>, the ratio reaching \<open>mix\<close> as given.
\<close>

theorem getShades_ratio_as_given:
  assumes "0 \<le> targetIndex color" and "targetIndex color \<le> 9"
    and "chroma (hex color) = Some c"
  shows "\<exists>ramp. getShades chroma color = Inr ramp \<and> length ramp = 10 \<and>
      ramp ! 0 = mix c WHITE (whiteMixRatio color) \<and>
      (targetIndex color \<le> 8 \<longrightarrow> ramp ! 9 = mix c BLACK (blackMixRatio color))"
proof -
  let ?t = "nat (targetIndex color)"
  from getShades_nth [where chroma = chroma and color = color, OF assms(1-3)]
  obtain ramp where r: "getShades chroma color = Inr ramp" and len: "length ramp = 10"
    and h: "\<And>i. i \<le> ?t \<Longrightarrow>
          ramp ! i = scalePoint (mix c WHITE (whiteMixRatio color)) c
                 (SHADING (shadingFunction color) (real i / real (?t + 1)))"
    and t: "\<And>i. ?t < i \<and> i < 10 \<Longrightarrow>
          ramp ! i = scalePoint c (mix c BLACK (blackMixRatio color))
                 (real (i - ?t) / real (9 - ?t))"
    by blast
  have first: "ramp ! 0 = mix c WHITE (whiteMixRatio color)"
    using h [of 0] by (simp add: SHADING_0 scalePoint_0)
  have last: "ramp ! 9 = mix c BLACK (blackMixRatio color)" if "targetIndex color \<le> 8"
  proof -
    have "?t < 9 \<and> (9::nat) < 10" using assms(1) that by simp
    from t [OF this] have "ramp ! 9 = scalePoint c (mix c BLACK (blackMixRatio color))
                 (real (9 - ?t) / real (9 - ?t))" .
    moreover have "real (9 - ?t) / real (9 - ?t) = 1"
      using assms(1) that by simp
    ultimately show ?thesis by (simp add: scalePoint_1)
  qed
  from r len first last show ?thesis by blast
qed

text \<open>
  Two negative ratios on a grey seed.
\<close>

theorem getShades_ratio_as_given_witness:
  "(0::int) \<le> 7 \<and> (7::int) \<le> 9 \<and> sample_chroma ''#777777'' = Some (Lab 50 0 0) \<and>
   (\<exists>ramp. getShades sample_chroma
        \<lparr>name = ''gray'', hex = ''#777777'', targetIndex = 7, shadingFunction = easeOut,
         whiteMixRatio = - 1 / 2, blackMixRatio = - 1 / 2\<rparr> = Inr ramp \<and>
      length ramp = 10 \<and> ramp ! 0 = Lab 25 0 0 \<and> ramp ! 9 = Lab 75 0 0)"
proof -
  let ?s = "\<lparr>name = ''gray'', hex = ''#777777'', targetIndex = 7, shadingFunction = easeOut,
         whiteMixRatio = - 1 / 2, blackMixRatio = - 1 / 2\<rparr>"
  have p: "sample_chroma (hex ?s) = Some (Lab 50 0 0)"
    by (simp add: sample_chroma_def)
  from getShades_ratio_as_given [where chroma = sample_chroma and color = ?s, OF _ _ p]
  have "\<exists>ramp. getShades sample_chroma ?s = Inr ramp \<and> length ramp = 10 \<and>
      ramp ! 0 = Lab 25 0 0 \<and> ramp ! 9 = Lab 75 0 0"
    by (simp add: WHITE_def BLACK_def)
  with p show ?thesis by simp
qed

text \<open>
  C4 as stated fails: with \<open>whiteMixRatio = -1/2\<close> the ramp differs from the ramp
  with \<open>whiteMixRatio = 0\<close>.
\<close>

theorem getShades_ratio_clamped_counterexample:
  "sample_chroma ''#777777'' = Some (Lab 50 0 0) \<and>
   getShades sample_chroma
      \<lparr>name = ''gray'', hex = ''#777777'', targetIndex = 7, shadingFunction = easeOut,
       whiteMixRatio = - 1 / 2, blackMixRatio = 85 / 100\<rparr> \<noteq>
   getShades sample_chroma
      \<lparr>name = ''gray'', hex = ''#777777'', targetIndex = 7, shadingFunction = easeOut,
       whiteMixRatio = 0, blackMixRatio = 85 / 100\<rparr>"
proof -
  let ?s = "\<lparr>name = ''gray'', hex = ''#777777'', targetIndex = 7, shadingFunction = easeOut,
       whiteMixRatio = - 1 / 2, blackMixRatio = 85 / 100\<rparr>"
  let ?z = "\<lparr>name = ''gray'', hex = ''#777777'', targetIndex = 7, shadingFunction = easeOut,
       whiteMixRatio = 0, blackMixRatio = 85 / 100\<rparr>"
  have p: "sample_chroma ''#777777'' = Some (Lab 50 0 0)"
    by (simp add: sample_chroma_def)
  have ps: "sample_chroma (hex ?s) = Some (Lab 50 0 0)"
    and ps0: "sample_chroma (hex ?z) = Some (Lab 50 0 0)"
    using p by simp_all
  from getShades_nth [where chroma = sample_chroma and color = ?s, OF _ _ ps]
  obtain ramp where r: "getShades sample_chroma ?s = Inr ramp"
    and h: "\<forall>i. i \<le> nat (targetIndex ?s) \<longrightarrow>
          ramp ! i = scalePoint (mix (Lab 50 0 0) WHITE (whiteMixRatio ?s)) (Lab 50 0 0)
                 (SHADING (shadingFunction ?s) (real i / real (nat (targetIndex ?s) + 1)))"
    by auto
  from getShades_nth [where chroma = sample_chroma and color = ?z, OF _ _ ps0]
  obtain ramp0 where r0: "getShades sample_chroma ?z = Inr ramp0"
    and h0: "\<forall>i. i \<le> nat (targetIndex ?z) \<longrightarrow>
          ramp0 ! i = scalePoint (mix (Lab 50 0 0) WHITE (whiteMixRatio ?z)) (Lab 50 0 0)
                 (SHADING (shadingFunction ?z) (real i / real (nat (targetIndex ?z) + 1)))"
    by auto
  have "ramp ! 0 = Lab 25 0 0"
    using h [rule_format, of 0] by (simp add: scalePoint_0 WHITE_def)
  moreover have "ramp0 ! 0 = Lab 50 0 0"
    using h0 [rule_format, of 0] by (simp add: scalePoint_0 WHITE_def)
  ultimately have "ramp \<noteq> ramp0" by auto
  with r r0 p show ?thesis by simp
qed

section \<open>Updates at an index outside the palette\<close>

text \<open>
  C5, as amended: for an index outside \<open>[0, length)\<close> the update does not fail
  with \<open>IndexOutOfRange\<close>; it returns a new palette. At or beyond the length (and
  below \<open>2^32 - 1\<close>) the new array is the copy grown with empty slots up to the index,
  where an object holding only the written property is stored; for every other index
  outside the range it is the copy unchanged.
\<close>

theorem updateAttrForIndex_out_of_range:
  assumes "palette st < length (heap st)"
    and "index < 0 \<or> int (length (heap st ! palette st)) \<le> index"
  shows "\<exists>st'. updateAttrForIndex st index attr val = Inr st' \<and>
      updateAttrForIndex st index attr val \<noteq> Inl IndexOutOfRange \<and>
      palette st' \<noteq> palette st \<and>
      heap st' ! palette st' =
        (if int (length (heap st ! palette st)) \<le> index \<and> index < 2 ^ 32 - 1
         then JSON_roundtrip (heap st ! palette st)
              @ replicate (nat index - length (heap st ! palette st)) None
              @ [Some [(attr, val)]]
         else JSON_roundtrip (heap st ! palette st))"
proof -
  let ?arr = "JSON_roundtrip (heap st ! palette st)"
  have len: "length ?arr = length (heap st ! palette st)"
    by (rule length_JSON_roundtrip)
  have get: "array_get ?arr index = None"
    using assms(2) by (auto simp: array_get_def len)
  have set: "array_set ?arr index v =
        (if int (length (heap st ! palette st)) \<le> index \<and> index < 2 ^ 32 - 1
         then ?arr @ replicate (nat index - length (heap st ! palette st)) None @ [Some v]
         else ?arr)" for v
    using assms(2) by (auto simp: array_set_def len)
  let ?st' = "\<lparr>heap = heap st @ [array_set ?arr index [(attr, val)]], palette = length (heap st)\<rparr>"
  have eq: "updateAttrForIndex st index attr val = Inr ?st'"
    unfolding updateAttrForIndex_Inr get by (simp add: spread_def)
  then have ok: "updateAttrForIndex st index attr val \<noteq> Inl IndexOutOfRange"
    by simp
  have ne: "palette ?st' \<noteq> palette st" using assms(1) by simp
  have "heap ?st' ! palette ?st' = array_set ?arr index [(attr, val)]" by simp
  then have new: "heap ?st' ! palette ?st' =
        (if int (length (heap st ! palette st)) \<le> index \<and> index < 2 ^ 32 - 1
         then ?arr @ replicate (nat index - length (heap st ! palette st)) None
              @ [Some [(attr, val)]]
         else ?arr)"
    by (simp only: set)
  from eq ok ne new show ?thesis by blast
qed

text \<open>
  The default palette of six entries, written at index 6.
\<close>

theorem updateAttrForIndex_out_of_range_witness:
  "palette App < length (heap App) \<and>
   ((6::int) < 0 \<or> int (length (heap App ! palette App)) \<le> 6) \<and>
   (\<exists>st'. updateAttrForIndex App 6 ''name'' (Str ''charcoal'') = Inr st' \<and>
      heap st' ! palette st' =
        heap App ! palette App @ [Some [(''name'', Str ''charcoal'')]])"
proof -
  note wf = App_wf and len = App_length
  have i: "(6::int) < 0 \<or> int (length (heap App ! palette App)) \<le> 6"
    using len by simp
  have js: "JSON_roundtrip (heap App ! palette App) = heap App ! palette App"
    unfolding App_palette by (rule JSON_roundtrip_typed)
  from updateAttrForIndex_out_of_range [OF wf i, of "''name''" "Str ''charcoal''"]
  have "\<exists>st'. updateAttrForIndex App 6 ''name'' (Str ''charcoal'') = Inr st' \<and>
      heap st' ! palette st' =
        heap App ! palette App @ [Some [(''name'', Str ''charcoal'')]]"
    unfolding js len by auto
  with wf i show ?thesis by (intro conjI)
qed

text \<open>
  C5 as stated fails: the write at index 6 of the six default entries returns a palette
  of seven slots.
\<close>

theorem updateAttrForIndex_no_IndexOutOfRange_counterexample:
  "length (heap App ! palette App) = 6 \<and>
   (case updateAttrForIndex App 6 ''name'' (Str ''charcoal'') of
      Inl e \<Rightarrow> False
    | Inr st' \<Rightarrow> length (heap st' ! palette st') = 7 \<and>
        heap st' ! palette st' ! 6 = Some [(''name'', Str ''charcoal'')])"
proof -
  note len = App_length
  have "array_get (JSON_roundtrip (heap App ! palette App)) 6 = None"
    by (simp add: array_get_def length_JSON_roundtrip len)
  moreover have "array_set (JSON_roundtrip (heap App ! palette App)) 6 v =
      JSON_roundtrip (heap App ! palette App) @ [Some v]" for v
    by (simp add: array_set_def length_JSON_roundtrip len)
  ultimately show ?thesis
    unfolding updateAttrForIndex_Inr
    by (simp add: len spread_def nth_append length_JSON_roundtrip)
qed

section \<open>Updates inside the palette change one property of one entry\<close>

text \<open>
  C6: for a palette that holds what JSON carries (strings and finite numbers), an index
  inside it, any property name and any value, the update returns a state that refers to
  a new array. Every array that existed before, the original palette among them, is as
  it was. The new array has the same length, its entry at the index is the old entry
  with the named property set to the value and every other property as before, and
  every other entry is as before.
\<close>

theorem updateAttrForIndex_frame:
  assumes "palette st < length (heap st)"
    and "0 \<le> index" and "index < int (length (heap st ! palette st))"
    and "JSON_roundtrip (heap st ! palette st) = heap st ! palette st"
    and "heap st ! palette st ! nat index = Some entry"
  shows "\<exists>st'. updateAttrForIndex st index attr val = Inr st' \<and>
      palette st' \<noteq> palette st \<and> palette st' < length (heap st') \<and>
      (\<forall>a. a < length (heap st) \<longrightarrow> heap st' ! a = heap st ! a) \<and>
      heap st' ! palette st' = (heap st ! palette st)[nat index := Some (AList.update attr val entry)] \<and>
      length (heap st' ! palette st') = length (heap st ! palette st) \<and>
      (\<forall>j. j < length (heap st ! palette st) \<and> j \<noteq> nat index \<longrightarrow>
           heap st' ! palette st' ! j = heap st ! palette st ! j) \<and>
      map_of (AList.update attr val entry) attr = Some val \<and>
      (\<forall>k. k \<noteq> attr \<longrightarrow> map_of (AList.update attr val entry) k = map_of entry k)"
proof -
  let ?arr = "heap st ! palette st"
  let ?new = "?arr[nat index := Some (AList.update attr val entry)]"
  let ?st' = "\<lparr>heap = heap st @ [?new], palette = length (heap st)\<rparr>"
  have get: "array_get ?arr index = Some entry"
    using assms(2,3,5) by (simp add: array_get_def)
  have set: "array_set ?arr index v = ?arr[nat index := Some v]" for v
    using assms(2,3) by (simp add: array_set_def)
  have eq: "updateAttrForIndex st index attr val = Inr ?st'"
    unfolding updateAttrForIndex_Inr assms(4) get set by (simp add: spread_def)
  have "palette ?st' \<noteq> palette st" using assms(1) by simp
  moreover have "palette ?st' < length (heap ?st')" by simp
  moreover have "\<forall>a. a < length (heap st) \<longrightarrow> heap ?st' ! a = heap st ! a"
    by (simp add: nth_append)
  moreover have "heap ?st' ! palette ?st' = ?new" by simp
  moreover have "length (heap ?st' ! palette ?st') = length ?arr" by simp
  moreover have "\<forall>j. j < length ?arr \<and> j \<noteq> nat index \<longrightarrow> heap ?st' ! palette ?st' ! j = ?arr ! j"
    by simp
  moreover have "map_of (AList.update attr val entry) attr = Some val \<and>
      (\<forall>k. k \<noteq> attr \<longrightarrow> map_of (AList.update attr val entry) k = map_of entry k)"
    by (simp add: AList.update_conv')
  ultimately show ?thesis using eq by blast
qed

text \<open>
  Renaming the first default entry to \<^verbatim>\<open>charcoal\<close>.
\<close>

theorem updateAttrForIndex_frame_witness:
  "palette App < length (heap App) \<and> (0::int) \<le> 0 \<and>
   (0::int) < int (length (heap App ! palette App)) \<and>
   JSON_roundtrip (heap App ! palette App) = heap App ! palette App \<and>
   (\<exists>st'. updateAttrForIndex App 0 ''name'' (Str ''charcoal'') = Inr st' \<and>
      palette st' \<noteq> palette App \<and>
      heap st' ! palette App = heap App ! palette App \<and>
      length (heap st' ! palette st') = 6 \<and>
      heap st' ! palette st' ! 0 =
        Some [(''name'', Str ''charcoal''), (''hex'', Str ''#302c2c''),
              (''targetIndex'', Num (Finite 7)), (''shadingFunction'', Str ''easeOut''),
              (''whiteMixRatio'', Num (Finite (9 / 10))),
              (''blackMixRatio'', Num (Finite (85 / 100)))] \<and>
      heap st' ! palette st' ! 1 = heap App ! palette App ! 1)"
proof -
  let ?gray = "obj_of \<lparr>name = ''gray'', hex = ''#302c2c'', targetIndex = 7,
                 shadingFunction = easeOut, whiteMixRatio = 9 / 10,
                 blackMixRatio = 85 / 100\<rparr>"
  let ?new = "[(''name'', Str ''charcoal''), (''hex'', Str ''#302c2c''),
              (''targetIndex'', Num (Finite 7)), (''shadingFunction'', Str ''easeOut''),
              (''whiteMixRatio'', Num (Finite (9 / 10))),
              (''blackMixRatio'', Num (Finite (85 / 100)))]"
  note wf = App_wf and len = App_length
  have i0: "(0::int) \<le> 0" and i1: "(0::int) < int (length (heap App ! palette App))"
    using len by simp_all
  have js: "JSON_roundtrip (heap App ! palette App) = heap App ! palette App"
    unfolding App_palette by (rule JSON_roundtrip_typed)
  have e: "heap App ! palette App ! nat 0 = Some ?gray"
    using App_first by simp
  from updateAttrForIndex_frame [OF wf i0 i1 js e, of "''name''" "Str ''charcoal''"]
  obtain st' where "updateAttrForIndex App 0 ''name'' (Str ''charcoal'') = Inr st'"
    and "palette st' \<noteq> palette App"
    and "\<forall>a. a < length (heap App) \<longrightarrow> heap st' ! a = heap App ! a"
    and "heap st' ! palette st' =
           (heap App ! palette App)[nat 0 := Some (AList.update ''name'' (Str ''charcoal'') ?gray)]"
    and "length (heap st' ! palette st') = length (heap App ! palette App)"
    and "\<forall>j. j < length (heap App ! palette App) \<and> j \<noteq> nat 0 \<longrightarrow>
           heap st' ! palette st' ! j = heap App ! palette App ! j"
    by blast
  then have "updateAttrForIndex App 0 ''name'' (Str ''charcoal'') = Inr st' \<and>
      palette st' \<noteq> palette App \<and>
      heap st' ! palette App = heap App ! palette App \<and>
      length (heap st' ! palette st') = 6 \<and>
      heap st' ! palette st' ! 0 = Some ?new \<and>
      heap st' ! palette st' ! 1 = heap App ! palette App ! 1"
    using wf len by (simp add: obj_of_def)
  then have "\<exists>st'. updateAttrForIndex App 0 ''name'' (Str ''charcoal'') = Inr st' \<and>
      palette st' \<noteq> palette App \<and>
      heap st' ! palette App = heap App ! palette App \<and>
      length (heap st' ! palette st') = 6 \<and>
      heap st' ! palette st' ! 0 = Some ?new \<and>
      heap st' ! palette st' ! 1 = heap App ! palette App ! 1"
    by (rule exI)
  with wf i0 i1 js show ?thesis by (intro conjI)
qed

section \<open>The easing functions fix the ends of the unit interval\<close>

text \<open>
  C7: each of the four easing functions takes 0 to 0 and 1 to 1 to within \<open>1e-9\<close>;
  over the reals the two values are met exactly.
\<close>

theorem SHADING_endpoints:
  "\<forall>f. \<bar>SHADING f 0 - 0\<bar> \<le> 1 / 10 ^ 9 \<and> \<bar>SHADING f 1 - 1\<bar> \<le> 1 / 10 ^ 9 \<and>
       SHADING f 0 = 0 \<and> SHADING f 1 = 1"
proof
  fix f
  have "SHADING f 0 = 0" and "SHADING f 1 = 1"
    by (cases f; simp)+
  then show "\<bar>SHADING f 0 - 0\<bar> \<le> 1 / 10 ^ 9 \<and> \<bar>SHADING f 1 - 1\<bar> \<le> 1 / 10 ^ 9 \<and>
       SHADING f 0 = 0 \<and> SHADING f 1 = 1"
    by simp
qed

section \<open>The seed colour among the entries\<close>




section \<open>The exported text\<close>



section \<open>The ratio fields fall back on every falsy number\<close>

text \<open>
  C10: when the text of a ratio field converts to zero (as \<^verbatim>\<open>"0"\<close> and the empty
  string do) or to \<^verbatim>\<open>NaN\<close>, the handler stores 0.9 in the entry; and whatever the
  text, the value stored by the handler is never zero.
\<close>

theorem onChange_ratio_zero_falls_back:
  assumes "palette st < length (heap st)"
    and "0 \<le> i" and "i < int (length (heap st ! palette st))"
    and "Number text = Finite 0 \<or> Number text = NaN"
  shows "(\<exists>st'. onChange_whiteMixRatio Number st i text = Inr st' \<and>
            map_of (spread (heap st' ! palette st' ! nat i)) ''whiteMixRatio'' = Some (Num (Finite (9 / 10)))) \<and>
         (\<exists>st'. onChange_blackMixRatio Number st i text = Inr st' \<and>
            map_of (spread (heap st' ! palette st' ! nat i)) ''blackMixRatio'' = Some (Num (Finite (9 / 10)))) \<and>
         (\<forall>t st'. onChange_whiteMixRatio Number st i t = Inr st' \<longrightarrow>
            map_of (spread (heap st' ! palette st' ! nat i)) ''whiteMixRatio'' \<noteq> Some (Num (Finite 0))) \<and>
         (\<forall>t st'. onChange_blackMixRatio Number st i t = Inr st' \<longrightarrow>
            map_of (spread (heap st' ! palette st' ! nat i)) ''blackMixRatio'' \<noteq> Some (Num (Finite 0)))"
proof -
  let ?arr = "JSON_roundtrip (heap st ! palette st)"
  have len: "length ?arr = length (heap st ! palette st)"
    by (rule length_JSON_roundtrip)
  have set: "array_set ?arr i v = ?arr[nat i := Some v]" for v
    using assms(2,3) by (simp add: array_set_def len)
  have stored: "\<exists>st'. updateAttrForIndex st i attr val = Inr st' \<and>
      (\<forall>st''. updateAttrForIndex st i attr val = Inr st'' \<longrightarrow>
         map_of (spread (heap st'' ! palette st'' ! nat i)) attr = Some val)" for attr val
    unfolding updateAttrForIndex_Inr set using assms(2,3)
    by (simp add: spread_def len AList.update_conv')
  have d: "js_or (Number text) (Finite (9 / 10)) = Finite (9 / 10)"
    using assms(4) by (rule js_or_falsy)
  have nz: "Num (js_or (Number t) (Finite (9 / 10))) \<noteq> Num (Finite 0)" for t
    using js_or_nonzero [of "Finite (9 / 10)" "Number t"] by simp
  have w: "\<exists>st'. onChange_whiteMixRatio Number st i text = Inr st' \<and>
            map_of (spread (heap st' ! palette st' ! nat i)) ''whiteMixRatio'' = Some (Num (Finite (9 / 10)))"
    unfolding onChange_whiteMixRatio_def setWhiteMixRatio_def d
    using stored [of "''whiteMixRatio''" "Num (Finite (9 / 10))"] by blast
  have b: "\<exists>st'. onChange_blackMixRatio Number st i text = Inr st' \<and>
            map_of (spread (heap st' ! palette st' ! nat i)) ''blackMixRatio'' = Some (Num (Finite (9 / 10)))"
    unfolding onChange_blackMixRatio_def setBlackMixRatio_def d
    using stored [of "''blackMixRatio''" "Num (Finite (9 / 10))"] by blast
  have w0: "map_of (spread (heap st' ! palette st' ! nat i)) ''whiteMixRatio'' \<noteq> Some (Num (Finite 0))"
    if "onChange_whiteMixRatio Number st i t = Inr st'" for t st'
    using that stored [of "''whiteMixRatio''" "Num (js_or (Number t) (Finite (9 / 10)))"] nz [of t]
    unfolding onChange_whiteMixRatio_def setWhiteMixRatio_def by auto
  have b0: "map_of (spread (heap st' ! palette st' ! nat i)) ''blackMixRatio'' \<noteq> Some (Num (Finite 0))"
    if "onChange_blackMixRatio Number st i t = Inr st'" for t st'
    using that stored [of "''blackMixRatio''" "Num (js_or (Number t) (Finite (9 / 10)))"] nz [of t]
    unfolding onChange_blackMixRatio_def setBlackMixRatio_def by auto
  from w b w0 b0 show ?thesis by blast
qed

text \<open>
  The texts \<^verbatim>\<open>"0"\<close> and \<^verbatim>\<open>""\<close> entered for the first default entry.
\<close>

theorem onChange_ratio_zero_falls_back_witness:
  "palette App < length (heap App) \<and> (0::int) \<le> 0 \<and>
   (0::int) < int (length (heap App ! palette App)) \<and>
   (\<exists>st'. onChange_whiteMixRatio (\<lambda>s. if s = ''0'' \<or> s = [] then Finite 0 else NaN) App 0 ''0''
            = Inr st' \<and>
      map_of (spread (heap st' ! palette st' ! 0)) ''whiteMixRatio'' = Some (Num (Finite (9 / 10)))) \<and>
   (\<exists>st'. onChange_blackMixRatio (\<lambda>s. if s = ''0'' \<or> s = [] then Finite 0 else NaN) App 0 []
            = Inr st' \<and>
      map_of (spread (heap st' ! palette st' ! 0)) ''blackMixRatio'' = Some (Num (Finite (9 / 10))))"
proof -
  let ?N = "\<lambda>s. if s = ''0'' \<or> s = [] then Finite 0 else NaN"
  note wf = App_wf
  have i0: "(0::int) \<le> 0" and i1: "(0::int) < int (length (heap App ! palette App))"
    by (simp_all add: App_length)
  have z: "?N ''0'' = Finite 0 \<or> ?N ''0'' = NaN" and e: "?N [] = Finite 0 \<or> ?N [] = NaN"
    by simp_all
  from onChange_ratio_zero_falls_back [where Number = ?N, OF wf i0 i1 z]
  have a: "\<exists>st'. onChange_whiteMixRatio ?N App 0 ''0'' = Inr st' \<and>
      map_of (spread (heap st' ! palette st' ! 0)) ''whiteMixRatio'' = Some (Num (Finite (9 / 10)))"
    by simp
  from onChange_ratio_zero_falls_back [where Number = ?N, OF wf i0 i1 e]
  have b: "\<exists>st'. onChange_blackMixRatio ?N App 0 [] = Inr st' \<and>
      map_of (spread (heap st' ! palette st' ! 0)) ''blackMixRatio'' = Some (Num (Finite (9 / 10)))"
    by simp
  from wf i0 i1 a b show ?thesis by (intro conjI)
qed

end
